theory Spec2Isabelle
  imports Complex_Main
begin

section \<open>The numpy fragment used by the calibration script\<close>

text \<open>
  The calibration script \<^verbatim>\<open>calibration_A431_highEGF.py\<close> works on numpy arrays of
  float64. A finite float is modelled as a real number with exact arithmetic; the values
  that numpy produces where the reals have none (a division by zero gives \<^verbatim>\<open>inf\<close> or
  \<^verbatim>\<open>nan\<close> with a warning, it does not raise) are constructors of their own, so that no
  division by zero is hidden in HOL's \<open>x / 0 = 0\<close>. Rounding, overflow and the sign of
  zero are not modelled.
\<close>

datatype npfloat = Num real | PInf | NInf | NaN

datatype error =
    ValueError        \<comment> \<open>numpy: bad shape, empty reduction, unknown field, empty vstack\<close>
  | IndexError        \<comment> \<open>numpy: index out of bounds\<close>
  | ZeroDivisionError \<comment> \<open>Python: float division by zero\<close>
  | RuntimeError string
  | SimulationError   \<comment> \<open>whatever the external solver raises\<close>

fun fsub :: "npfloat \<Rightarrow> npfloat \<Rightarrow> npfloat" where
  "fsub NaN _ = NaN"
| "fsub _ NaN = NaN"
| "fsub (Num a) (Num b) = Num (a - b)"
| "fsub (Num a) PInf = NInf"
| "fsub (Num a) NInf = PInf"
| "fsub PInf PInf = NaN"
| "fsub PInf _ = PInf"
| "fsub NInf NInf = NaN"
| "fsub NInf _ = NInf"

fun fadd :: "npfloat \<Rightarrow> npfloat \<Rightarrow> npfloat" where
  "fadd NaN _ = NaN"
| "fadd _ NaN = NaN"
| "fadd (Num a) (Num b) = Num (a + b)"
| "fadd (Num a) PInf = PInf"
| "fadd (Num a) NInf = NInf"
| "fadd PInf NInf = NaN"
| "fadd PInf _ = PInf"
| "fadd NInf PInf = NaN"
| "fadd NInf _ = NInf"

text \<open>\<^verbatim>\<open>x ** 2\<close>\<close>

fun fsquare :: "npfloat \<Rightarrow> npfloat" where
  "fsquare (Num a) = Num (a\<^sup>2)"
| "fsquare PInf = PInf"
| "fsquare NInf = PInf"
| "fsquare NaN = NaN"

text \<open>
  True division of floats: \<open>0 / 0\<close> and \<open>inf / inf\<close> are \<^verbatim>\<open>nan\<close>, a non-zero number
  over zero is an infinity of the numerator's sign.
\<close>

fun fdiv :: "npfloat \<Rightarrow> npfloat \<Rightarrow> npfloat" where
  "fdiv NaN _ = NaN"
| "fdiv _ NaN = NaN"
| "fdiv (Num a) (Num b) =
     (if b \<noteq> 0 then Num (a / b)
      else if a = 0 then NaN else if 0 < a then PInf else NInf)"
| "fdiv (Num a) PInf = Num 0"
| "fdiv (Num a) NInf = Num 0"
| "fdiv PInf (Num b) = (if b < 0 then NInf else PInf)"
| "fdiv NInf (Num b) = (if b < 0 then PInf else NInf)"
| "fdiv PInf _ = NaN"
| "fdiv NInf _ = NaN"

text \<open>
  The comparisons of floats: \<^verbatim>\<open>nan\<close> is less than nothing and nothing is less than it;
  the minimum and the maximum that numpy's reductions take return \<^verbatim>\<open>nan\<close> as soon as
  one argument is.
\<close>

fun flt :: "npfloat \<Rightarrow> npfloat \<Rightarrow> bool" where
  "flt NaN _ = False"
| "flt _ NaN = False"
| "flt (Num a) (Num b) = (a < b)"
| "flt (Num a) PInf = True"
| "flt (Num a) NInf = False"
| "flt PInf _ = False"
| "flt NInf NInf = False"
| "flt NInf _ = True"

fun fmin :: "npfloat \<Rightarrow> npfloat \<Rightarrow> npfloat" where
  "fmin NaN _ = NaN"
| "fmin _ NaN = NaN"
| "fmin (Num a) (Num b) = Num (min a b)"
| "fmin NInf _ = NInf"
| "fmin _ NInf = NInf"
| "fmin PInf b = b"
| "fmin a PInf = a"

fun fmax :: "npfloat \<Rightarrow> npfloat \<Rightarrow> npfloat" where
  "fmax NaN _ = NaN"
| "fmax _ NaN = NaN"
| "fmax (Num a) (Num b) = Num (max a b)"
| "fmax PInf _ = PInf"
| "fmax _ PInf = PInf"
| "fmax NInf b = b"
| "fmax a NInf = a"

text \<open>
  The largest finite float64, and the reals within its range: an exact result beyond it
  is an infinity for the program.
\<close>

definition float_max :: real where
  "float_max = (2 - 1 / 2 ^ 52) * 2 ^ 1023"

definition representable :: "real \<Rightarrow> bool" where
  "representable x = (\<bar>x\<bar> \<le> float_max)"

text \<open>\<^verbatim>\<open>numpy.log10\<close>: \<open>-inf\<close> at zero and \<^verbatim>\<open>nan\<close> below it.\<close>

definition flog10 :: "real \<Rightarrow> npfloat" where
  "flog10 x = (if 0 < x then Num (log 10 x) else if x = 0 then NInf else NaN)"

text \<open>\<^verbatim>\<open>numpy.sum\<close> of the elements, from \<open>0.0\<close>.\<close>

definition fsum :: "npfloat list \<Rightarrow> npfloat" where
  "fsum xs = foldl fadd (Num 0) xs"

text \<open>A Python exception ends the computation: the rest runs only on a value.\<close>

definition on_value :: "error + 'a \<Rightarrow> ('a \<Rightarrow> error + 'b) \<Rightarrow> error + 'b" where
  "on_value m f = (case m of Inl e \<Rightarrow> Inl e | Inr x \<Rightarrow> f x)"

subsection \<open>Arrays\<close>

text \<open>
  A one-dimensional array is a list. A two-dimensional array is the list of its rows
  together with the number of columns, which the rows alone do not give when there are
  none: its shape is \<open>(nrows, ncols)\<close>.
\<close>

record 'a array2 =
  ncols :: nat
  rows :: "'a list list"

definition nrows :: "'a array2 \<Rightarrow> nat" where
  "nrows A = length (rows A)"

definition shape :: "'a array2 \<Rightarrow> nat \<times> nat" where
  "shape A = (nrows A, ncols A)"

definition wf_array2 :: "'a array2 \<Rightarrow> bool" where
  "wf_array2 A = list_all (\<lambda>r. length r = ncols A) (rows A)"

text \<open>\<^verbatim>\<open>A[t, k]\<close>\<close>

definition cell :: "'a array2 \<Rightarrow> nat \<Rightarrow> nat \<Rightarrow> 'a" where
  "cell A t k = rows A ! t ! k"

text \<open>\<^verbatim>\<open>A[:, k]\<close>\<close>

definition column :: "'a array2 \<Rightarrow> nat \<Rightarrow> 'a list" where
  "column A k = map (\<lambda>r. r ! k) (rows A)"

definition amap :: "('a \<Rightarrow> 'b) \<Rightarrow> 'a array2 \<Rightarrow> 'b array2" where
  "amap f A = \<lparr>ncols = ncols A, rows = map (map f) (rows A)\<rparr>"

text \<open>A one-dimensional operand of a two-dimensional operation is a single row.\<close>

definition as_row :: "'a list \<Rightarrow> 'a array2" where
  "as_row v = \<lparr>ncols = length v, rows = [v]\<rparr>"

text \<open>
  Broadcasting: two axis lengths are compatible when they are equal or one of them is 1,
  and an axis of length 1 is read at index 0 whatever the index in the result.
\<close>

definition bdim :: "nat \<Rightarrow> nat \<Rightarrow> nat option" where
  "bdim m n = (if m = n then Some m else if m = 1 then Some n
               else if n = 1 then Some m else None)"

definition bidx :: "nat \<Rightarrow> nat \<Rightarrow> nat" where
  "bidx m i = (if m = 1 then 0 else i)"

definition broadcast1 :: "('a \<Rightarrow> 'b \<Rightarrow> 'c) \<Rightarrow> 'a list \<Rightarrow> 'b list \<Rightarrow> error + 'c list" where
  "broadcast1 f u v =
     (case bdim (length u) (length v) of
        None \<Rightarrow> Inl ValueError
      | Some n \<Rightarrow> Inr (map (\<lambda>k. f (u ! bidx (length u) k) (v ! bidx (length v) k)) [0..<n]))"

text \<open>The array of \<open>r\<close> rows and \<open>c\<close> columns with the entry \<open>g t k\<close> at \<open>[t, k]\<close>.\<close>

definition tabulate2 :: "nat \<Rightarrow> nat \<Rightarrow> (nat \<Rightarrow> nat \<Rightarrow> 'a) \<Rightarrow> 'a array2" where
  "tabulate2 r c g = \<lparr>ncols = c, rows = map (\<lambda>t. map (g t) [0..<c]) [0..<r]\<rparr>"

definition broadcast2 ::
  "('a \<Rightarrow> 'b \<Rightarrow> 'c) \<Rightarrow> 'a array2 \<Rightarrow> 'b array2 \<Rightarrow> error + 'c array2" where
  "broadcast2 f A B =
     (case (bdim (nrows A) (nrows B), bdim (ncols A) (ncols B)) of
        (Some r, Some c) \<Rightarrow>
          Inr (tabulate2 r c (\<lambda>t k. f (cell A (bidx (nrows A) t) (bidx (ncols A) k))
                                     (cell B (bidx (nrows B) t) (bidx (ncols B) k))))
      | _ \<Rightarrow> Inl ValueError)"

text \<open>
  \<^verbatim>\<open>A.min(0)\<close> and \<^verbatim>\<open>A.max(0)\<close>: the minimum and maximum of every column. A reduction
  along an axis of length 0 has no identity and raises.
\<close>

definition reduce0 ::
  "(npfloat \<Rightarrow> npfloat \<Rightarrow> npfloat) \<Rightarrow> npfloat array2 \<Rightarrow> error + npfloat list" where
  "reduce0 f A =
     (case rows A of
        [] \<Rightarrow> Inl ValueError
      | r # rs \<Rightarrow> Inr (map (\<lambda>k. fold f (map (\<lambda>q. q ! k) rs) (r ! k)) [0..<ncols A]))"

definition amin0 :: "npfloat array2 \<Rightarrow> error + npfloat list" where
  "amin0 = reduce0 fmin"

definition amax0 :: "npfloat array2 \<Rightarrow> error + npfloat list" where
  "amax0 = reduce0 fmax"

text \<open>
  \<^verbatim>\<open>numpy.vstack\<close> of one-dimensional arrays: each is a row; no array at all, or rows
  of different lengths, raise.
\<close>

definition vstack :: "'a list list \<Rightarrow> error + 'a array2" where
  "vstack vs =
     (case vs of
        [] \<Rightarrow> Inl ValueError
      | v # ws \<Rightarrow> if list_all (\<lambda>w. length w = length v) ws
                 then Inr \<lparr>ncols = length v, rows = vs\<rparr> else Inl ValueError)"

text \<open>\<^verbatim>\<open>A.T\<close>\<close>

definition transpose2 :: "'a array2 \<Rightarrow> 'a array2" where
  "transpose2 A = \<lparr>ncols = nrows A, rows = map (column A) [0..<ncols A]\<rparr>"

text \<open>
  A record array, as the simulator returns it: one record per time point, one float per
  field in every record. \<^verbatim>\<open>r[name]\<close> is the column of that field and raises for a name
  that is no field.
\<close>

record recarray =
  field_names :: "string list"
  records :: "real list list"

definition wf_recarray :: "recarray \<Rightarrow> bool" where
  "wf_recarray r = (distinct (field_names r) \<and> list_all (\<lambda>q. length q = length (field_names r)) (records r))"

fun field_index :: "string list \<Rightarrow> string \<Rightarrow> nat option" where
  "field_index [] name = None"
| "field_index (f # fs) name =
     (if f = name then Some 0 else map_option Suc (field_index fs name))"

definition getfield :: "recarray \<Rightarrow> string \<Rightarrow> error + real list" where
  "getfield r name =
     (case field_index (field_names r) name of
        None \<Rightarrow> Inl ValueError
      | Some i \<Rightarrow> Inr (map (\<lambda>q. q ! i) (records r)))"

section \<open>The rule-based model\<close>

subsection \<open>Components of a PySB model\<close>

text \<open>
  A monomer pattern names a monomer and constrains some of its sites: a site is unbound
  (\<^verbatim>\<open>None\<close>), carries a numbered bond, carries any bond (\<^verbatim>\<open>ANY\<close>), or is in a named
  state. The operator \<^verbatim>\<open>%\<close> joins monomer patterns into a complex pattern, \<^verbatim>\<open>+\<close> lists
  the complex patterns of one side of a rule.
\<close>

datatype site_cond = Unbound | Bond nat | AnyBond | State string

datatype monomer_pattern = MP (monomer: string) (site_conditions: "(string \<times> site_cond) list")

type_synonym complex_pattern = "monomer_pattern list"

text \<open>
  A component is named in the source, or by the macro that creates it from a prefix and
  the patterns it is given; the text of a generated name is of no concern here.
\<close>

datatype cname = Name string | Generated string "monomer_pattern list"

record parameter =
  pname :: cname
  pvalue :: real

record rule =
  rule_name :: cname
  reactant_pattern :: "complex_pattern list"
  product_pattern :: "complex_pattern list"
  is_reversible :: bool
  rate_forward :: parameter
  rate_reverse :: "parameter option"

record monomer_decl =
  mname :: string
  sites :: "string list"
  site_states :: "(string \<times> string list) list"

record model =
  monomers :: "monomer_decl list"
  parameters :: "parameter list"
  rules :: "rule list"
  initial_conditions :: "(complex_pattern \<times> parameter) list"

text \<open>Calling a pattern with a site condition sets that site and keeps the others.\<close>

fun set_cond :: "(string \<times> site_cond) list \<Rightarrow> string \<Rightarrow> site_cond \<Rightarrow> (string \<times> site_cond) list" where
  "set_cond [] s c = [(s, c)]"
| "set_cond ((s', c') # cs) s c = (if s' = s then (s, c) # cs else (s', c') # set_cond cs s c)"

definition with_site :: "monomer_pattern \<Rightarrow> string \<Rightarrow> site_cond \<Rightarrow> monomer_pattern" where
  "with_site p s c = MP (monomer p) (set_cond (site_conditions p) s c)"

definition site :: "monomer_pattern \<Rightarrow> string \<Rightarrow> site_cond option" where
  "site p s = map_of (site_conditions p) s"

text \<open>
  The macros of \<^verbatim>\<open>pysb.macros\<close> that the module calls. \<^verbatim>\<open>bind\<close> makes the reversible
  rule \<^verbatim>\<open>s1(site1=None) + s2(site2=None) <> s1(site1=1) % s2(site2=1)\<close> with two new rate
  parameters; \<^verbatim>\<open>bind_table\<close> calls it for every entry of the table that is not
  \<^verbatim>\<open>None\<close>, row by row; \<^verbatim>\<open>degrade\<close> makes the rule \<^verbatim>\<open>species >> None\<close>.
\<close>

definition bind :: "monomer_pattern \<Rightarrow> string \<Rightarrow> monomer_pattern \<Rightarrow> string \<Rightarrow> real \<times> real \<Rightarrow> rule" where
  "bind s1 site1 s2 site2 klist =
     \<lparr>rule_name = Generated ''bind'' [s1, s2],
      reactant_pattern = [[with_site s1 site1 Unbound], [with_site s2 site2 Unbound]],
      product_pattern = [[with_site s1 site1 (Bond 1), with_site s2 site2 (Bond 1)]],
      is_reversible = True,
      rate_forward = \<lparr>pname = Generated ''bind_kf'' [s1, s2], pvalue = fst klist\<rparr>,
      rate_reverse = Some \<lparr>pname = Generated ''bind_kr'' [s1, s2], pvalue = snd klist\<rparr>\<rparr>"

definition bind_table ::
  "monomer_pattern list \<Rightarrow> (monomer_pattern \<times> (real \<times> real) option list) list \<Rightarrow>
   string \<Rightarrow> string \<Rightarrow> rule list" where
  "bind_table s_cols table_rows row_site col_site =
     concat (map (\<lambda>(s_row, ks).
       concat (map (\<lambda>(s_col, k).
         case k of None \<Rightarrow> [] | Some klist \<Rightarrow> [bind s_row row_site s_col col_site klist])
         (zip s_cols ks))) table_rows)"

definition degrade :: "complex_pattern \<Rightarrow> parameter \<Rightarrow> rule" where
  "degrade species kdeg =
     \<lparr>rule_name = Generated ''degrade'' species,
      reactant_pattern = [species], product_pattern = [],
      is_reversible = False, rate_forward = kdeg, rate_reverse = None\<rparr>"

text \<open>The rate parameters of a rule: the forward rate, and the reverse rate if any.\<close>

definition rule_rates :: "rule \<Rightarrow> parameter list" where
  "rule_rates r = rate_forward r # (case rate_reverse r of None \<Rightarrow> [] | Some p \<Rightarrow> [p])"

text \<open>
  Modelled from the spec: \<^verbatim>\<open>Model.parameters_rules()\<close> belongs to PySB and the model that
  the script calibrates is imported from \<^verbatim>\<open>erbb_exec\<close>; neither is part of the source.
  The spec says that the script fits ``the model's kinetic rate parameters'', and the
  script that it estimates ``rates only (not initial conditions)'': the parameters that
  are the forward or reverse rate of some rule, in the order of the model's parameters.
\<close>

definition parameters_rules :: "model \<Rightarrow> parameter list" where
  "parameters_rules m =
     filter (\<lambda>p. p \<in> set (concat (map rule_rates (rules m)))) (parameters m)"

text \<open>
  Modelled from the spec: \<^verbatim>\<open>Model.parameters_initial_conditions()\<close> of PySB, which is
  not part of the source either: the parameters that are the value of an initial
  condition.
\<close>

definition parameters_initial_conditions :: "model \<Rightarrow> parameter list" where
  "parameters_initial_conditions m =
     filter (\<lambda>p. p \<in> set (map snd (initial_conditions m))) (parameters m)"

subsection \<open>The receptor layer of chen_modules.py\<close>

definition KF :: real where "KF = 1 / 10 ^ 6"
definition KR :: real where "KR = 1 / 10 ^ 3"
definition KC :: real where "KC = 1"
definition KDIMF :: real where "KDIMF = 1 / 10 ^ 6"
definition KDIMR :: real where "KDIMR = 1 / 10 ^ 3"
definition KINTF :: real where "KINTF = 1 / 10 ^ 3"
definition KINTR :: real where "KINTR = 5 / 10 ^ 5"
definition KDEG :: real where "KDEG = 1 / 10"

definition Parameter :: "string \<Rightarrow> real \<Rightarrow> parameter" where
  "Parameter n v = \<lparr>pname = Name n, pvalue = v\<rparr>"

definition erbb :: "(string \<times> site_cond) list \<Rightarrow> monomer_pattern" where
  "erbb = MP ''erbb''"

definition EGF :: "(string \<times> site_cond) list \<Rightarrow> monomer_pattern" where
  "EGF = MP ''EGF''"

definition HRG :: "(string \<times> site_cond) list \<Rightarrow> monomer_pattern" where
  "HRG = MP ''HRG''"

definition DEP :: "(string \<times> site_cond) list \<Rightarrow> monomer_pattern" where
  "DEP = MP ''DEP''"

definition ATP :: "(string \<times> site_cond) list \<Rightarrow> monomer_pattern" where
  "ATP = MP ''ATP''"

definition ADP :: "(string \<times> site_cond) list \<Rightarrow> monomer_pattern" where
  "ADP = MP ''ADP''"

definition rec_monomers :: "monomer_decl list" where
  "rec_monomers =
     [\<lparr>mname = ''EGF'', sites = [''b''], site_states = []\<rparr>,
      \<lparr>mname = ''HRG'', sites = [''b''], site_states = []\<rparr>,
      \<lparr>mname = ''erbb'', sites = [''bl'', ''bd'', ''b'', ''ty'', ''st'', ''loc''],
       site_states = [(''ty'', [''1'', ''2'', ''3'', ''4'']), (''st'', [''U'', ''P'']),
                      (''loc'', [''C'', ''E''])]\<rparr>,
      \<lparr>mname = ''DEP'', sites = [''b''], site_states = []\<rparr>,
      \<lparr>mname = ''ATP'', sites = [''b''], site_states = []\<rparr>,
      \<lparr>mname = ''ADP'', sites = [], site_states = []\<rparr>]"

definition free_erbb :: "string \<Rightarrow> monomer_pattern" where
  "free_erbb ty = erbb [(''bl'', Unbound), (''bd'', Unbound), (''b'', Unbound),
                        (''ty'', State ty), (''st'', State ''U''), (''loc'', State ''C'')]"

definition rec_initial :: "(complex_pattern \<times> parameter) list" where
  "rec_initial =
     [([EGF [(''b'', Unbound)]], Parameter ''EGF_0'' 1000),
      ([HRG [(''b'', Unbound)]], Parameter ''HRG_0'' 1000),
      ([free_erbb ''1''], Parameter ''erbb1_0'' 1000),
      ([free_erbb ''2''], Parameter ''erbb2_0'' 1000),
      ([free_erbb ''3''], Parameter ''erbb3_0'' 1000),
      ([free_erbb ''4''], Parameter ''erbb4_0'' 1000),
      ([DEP [(''b'', Unbound)]], Parameter ''DEP_0'' 1000),
      ([ATP [(''b'', Unbound)]], Parameter ''ATP_0'' 1000)]"

text \<open>The receptor patterns of the binding tables.\<close>

definition erbb_UC :: "string \<Rightarrow> monomer_pattern" where
  "erbb_UC ty = erbb [(''ty'', State ty), (''b'', Unbound), (''st'', State ''U''),
                      (''loc'', State ''C'')]"

definition erbb_dimer_UC :: "string \<Rightarrow> monomer_pattern" where
  "erbb_dimer_UC ty = erbb [(''ty'', State ty), (''bd'', AnyBond), (''st'', State ''U''),
                            (''loc'', State ''C'')]"

definition ligand_binding :: "rule list" where
  "ligand_binding =
     bind_table [EGF [], HRG []]
       [(erbb_UC ''1'', [Some (1, 1), None]),
        (erbb_UC ''3'', [None, Some (1, 1)]),
        (erbb_UC ''4'', [None, Some (1, 1)])]
       ''bl'' ''b''"

definition dimerization :: "rule list" where
  "dimerization =
     bind_table [erbb_UC ''1'', erbb_UC ''2'', erbb_UC ''3'', erbb_UC ''4'']
       [(erbb_UC ''1'', [Some (KDIMF, KDIMR), None, None, None]),
        (erbb_UC ''2'', [Some (KDIMF, KDIMR), Some (KDIMF, KDIMR), None, None]),
        (erbb_UC ''3'', [Some (KDIMF, KDIMR), Some (KDIMF, KDIMR), None, None]),
        (erbb_UC ''4'', [Some (KDIMF, KDIMR), Some (KDIMF, KDIMR), None, None])]
       ''bd'' ''bd''"

definition ATP_binding :: "rule list" where
  "ATP_binding =
     bind_table [ATP []]
       [(erbb_dimer_UC ''1'', [Some (KF, KR)]),
        (erbb_dimer_UC ''2'', [Some (KF, KR)]),
        (erbb_dimer_UC ''4'', [Some (KF, KR)])]
       ''b'' ''b''"

text \<open>
  \<^verbatim>\<open>
  for i in ['1','2','4']:
      for j in ['1','2','3','4']:
          Rule("cross_phospho_"+i+"_"+j,
               ATP(b=1) % erbb(ty=i, b=1,    bd=2, bl=ANY) % erbb(ty=j, bd=2, st='U') >>
               ADP()    + erbb(ty=i, b=None, bd=2, bl=ANY) % erbb(ty=j, bd=2, st='P'),
               Parameter("kcp"+i+j, KC))
  \<close>
\<close>

definition cross_phospho :: "string \<Rightarrow> string \<Rightarrow> rule" where
  "cross_phospho i j =
     \<lparr>rule_name = Name (''cross_phospho_'' @ i @ ''_'' @ j),
      reactant_pattern =
        [[ATP [(''b'', Bond 1)],
          erbb [(''ty'', State i), (''b'', Bond 1), (''bd'', Bond 2), (''bl'', AnyBond)],
          erbb [(''ty'', State j), (''bd'', Bond 2), (''st'', State ''U'')]]],
      product_pattern =
        [[ADP []],
         [erbb [(''ty'', State i), (''b'', Unbound), (''bd'', Bond 2), (''bl'', AnyBond)],
          erbb [(''ty'', State j), (''bd'', Bond 2), (''st'', State ''P'')]]],
      is_reversible = False,
      rate_forward = Parameter (''kcp'' @ i @ j) KC,
      rate_reverse = None\<rparr>"

definition cross_phospho_rules :: "rule list" where
  "cross_phospho_rules =
     concat (map (\<lambda>i. map (\<lambda>j. cross_phospho i j) [''1'', ''2'', ''3'', ''4''])
                 [''1'', ''2'', ''4''])"

text \<open>
  The dephosphorylation loop runs over \<open>i\<close> alone and builds its names with the \<open>j\<close>
  that the loop above has left behind, which is \<^verbatim>\<open>'4'\<close>.
\<close>

definition dephospho :: "string \<Rightarrow> string \<Rightarrow> rule list" where
  "dephospho i j =
     [\<lparr>rule_name = Name (''dephospho_'' @ i @ ''_'' @ j),
       reactant_pattern =
         [[erbb [(''st'', State ''P''), (''b'', Unbound), (''ty'', State i)]],
          [DEP [(''b'', Unbound)]]],
       product_pattern =
         [[erbb [(''st'', State ''P''), (''b'', Bond 1), (''ty'', State i)],
           DEP [(''b'', Bond 1)]]],
       is_reversible = True,
       rate_forward = Parameter (''kfdephos'' @ i @ j) KF,
       rate_reverse = Some (Parameter (''krdephos'' @ i @ j) KR)\<rparr>,
      \<lparr>rule_name = Name (''dephosphoC_'' @ i @ ''_'' @ j),
       reactant_pattern =
         [[erbb [(''st'', State ''P''), (''b'', Bond 1), (''ty'', State i)],
           DEP [(''b'', Bond 1)]]],
       product_pattern =
         [[erbb [(''st'', State ''U''), (''b'', Unbound), (''ty'', State i)]],
          [DEP [(''b'', Unbound)]]],
       is_reversible = False,
       rate_forward = Parameter (''kcdephos'' @ i @ j) KC,
       rate_reverse = None\<rparr>]"

definition dephospho_rules :: "rule list" where
  "dephospho_rules = concat (map (\<lambda>i. dephospho i ''4'') [''1'', ''2'', ''3'', ''4''])"

definition rec_intern :: rule where
  "rec_intern =
     \<lparr>rule_name = Name ''rec_intern'',
      reactant_pattern =
        [[erbb [(''bd'', Bond 1), (''loc'', State ''C'')],
          erbb [(''bd'', Bond 1), (''loc'', State ''C'')]]],
      product_pattern =
        [[erbb [(''bd'', Bond 1), (''loc'', State ''E'')],
          erbb [(''bd'', Bond 1), (''loc'', State ''E'')]]],
      is_reversible = True,
      rate_forward = Parameter ''kintf'' KINTF,
      rate_reverse = Some (Parameter ''kintr'' KINTR)\<rparr>"

definition rec_degrade :: rule where
  "rec_degrade =
     degrade [erbb [(''bd'', Bond 1), (''loc'', State ''E'')],
              erbb [(''bd'', Bond 1), (''loc'', State ''E'')]]
             (Parameter ''kdeg'' KDEG)"

text \<open>The rules that \<^verbatim>\<open>rec_events()\<close> adds to the model, in the order of the source.\<close>

definition rec_events :: "rule list" where
  "rec_events =
     ligand_binding @ dimerization @ ATP_binding @ cross_phospho_rules @ dephospho_rules @
     [rec_intern, rec_degrade]"

section \<open>Reading the rules\<close>

text \<open>
  The reaction network itself is generated from the rules by an engine that is not part
  of the source. What the rules say about one receptor is read off their patterns: the
  receptor patterns of the two sides of a rule correspond by position, a site that a
  pattern does not mention is not constrained on the left and not changed on the right,
  and a receptor pattern of the left with no counterpart on the right is a receptor that
  the rule removes.
\<close>

definition erbb_patterns :: "complex_pattern list \<Rightarrow> monomer_pattern list" where
  "erbb_patterns side = filter (\<lambda>p. monomer p = ''erbb'') (concat side)"

definition state_of :: "monomer_pattern \<Rightarrow> string \<Rightarrow> string option" where
  "state_of p s = (case site p s of Some (State v) \<Rightarrow> Some v | _ \<Rightarrow> None)"

text \<open>The types of the receptors of a complex pattern that are bound to ATP at site \<open>b\<close>.\<close>

definition bound_to_ATP :: "complex_pattern \<Rightarrow> monomer_pattern \<Rightarrow> bool" where
  "bound_to_ATP cp p =
     (case site p ''b'' of
        Some (Bond n) \<Rightarrow>
          list_ex (\<lambda>q. monomer q = ''ATP'' \<and> site q ''b'' = Some (Bond n)) cp
      | _ \<Rightarrow> False)"

definition carries_ATP :: "complex_pattern \<Rightarrow> string option list" where
  "carries_ATP cp =
     map (\<lambda>p. state_of p ''ty'')
       (filter (\<lambda>p. monomer p = ''erbb'' \<and> bound_to_ATP cp p) cp)"

definition kinases :: "rule \<Rightarrow> string option list" where
  "kinases r = concat (map carries_ATP (reactant_pattern r))"

text \<open>
  The types of the receptors that a rule takes from state \<open>U\<close> to state \<open>P\<close>, in its
  forward direction.
\<close>

definition substrates :: "rule \<Rightarrow> string option list" where
  "substrates r =
     map (\<lambda>(p, q). state_of p ''ty'')
       (filter (\<lambda>(p, q). state_of p ''st'' = Some ''U'' \<and> state_of q ''st'' = Some ''P'')
          (zip (erbb_patterns (reactant_pattern r)) (erbb_patterns (product_pattern r))))"








section \<open>The calibration script\<close>

subsection \<open>normalize\<close>

text \<open>
  \<^verbatim>\<open>
  def normalize(trajectories):
      ymin = trajectories.min(0)
      ymax = trajectories.max(0)
      return ((trajectories - ymin) / (ymax - ymin))
  \<close>
  The argument is any matrix of floats: its entries can be infinite or \<^verbatim>\<open>nan\<close>, and
  the subtractions and the division are those of floats.
\<close>

definition normalize :: "npfloat array2 \<Rightarrow> error + npfloat array2" where
  "normalize trajectories =
     on_value (amin0 trajectories) (\<lambda>ymin.
     on_value (amax0 trajectories) (\<lambda>ymax.
     on_value (broadcast2 fsub trajectories (as_row ymin)) (\<lambda>num.
     on_value (broadcast1 fsub ymax ymin) (\<lambda>den.
       broadcast2 fdiv num (as_row den)))))"

subsection \<open>extract_records\<close>

text \<open>
  \<^verbatim>\<open>
  def extract_records(recarray, names):
      return numpy.vstack([recarray[name] for name in names]).T
  \<close>
  The comprehension reads the fields in the order of \<open>names\<close> and stops at the first
  one that raises.
\<close>

fun getfields :: "recarray \<Rightarrow> string list \<Rightarrow> error + real list list" where
  "getfields r [] = Inr []"
| "getfields r (name # names) =
     on_value (getfield r name) (\<lambda>col.
     on_value (getfields r names) (\<lambda>cols. Inr (col # cols)))"

definition extract_records :: "recarray \<Rightarrow> string list \<Rightarrow> error + real array2" where
  "extract_records r names =
     on_value (getfields r names) (\<lambda>cols.
     on_value (vstack cols) (\<lambda>A. Inr (transpose2 A)))"

subsection \<open>The sampler object and the globals of the script\<close>

text \<open>
  The sampler of \<^verbatim>\<open>bayessb\<close> is not part of the source. The script reads the
  attributes below and calls three of its methods; \<open>simulate_fn\<close> stands for the solver
  behind \<^verbatim>\<open>mcmc.simulate(position, observables)\<close>, and \<open>simulate_calls\<close> records every
  call made to it. A position that is left out is \<open>None\<close>.
\<close>

record mcmc =
  simulate_fn :: "real list option \<Rightarrow> bool \<Rightarrow> error + recarray"
  simulate_calls :: "(real list option \<times> bool) list"
  iter :: int
  sig_value :: real
  T :: real
  acceptance :: int
  accept_likelihood :: real
  accept_prior :: real
  accept_posterior :: real
  cur_params :: "real list"
  estimate_idx :: "nat list"
  get_mixed_accepts :: "real \<Rightarrow> real list list"

definition simulate :: "mcmc \<Rightarrow> real list option \<Rightarrow> bool \<Rightarrow> (error + recarray) \<times> mcmc" where
  "simulate m position observables =
     (simulate_fn m position observables,
      m\<lparr>simulate_calls := simulate_calls m @ [(position, observables)]\<rparr>)"

definition tspan :: "real list" where
  "tspan = [0, 150, 300, 450, 600, 900, 1800, 2700, 3600, 7200]"

definition obs_names :: "string list" where
  "obs_names = [''obsAKTPP'', ''obsErbB1_ErbB_P_CE'', ''obsERKPP'']"

definition scenario :: int where
  "scenario = 1"

definition prior_var :: real where
  "prior_var = 6"

text \<open>\<^verbatim>\<open>numpy.sum\<close> of a two-dimensional array adds all its entries.\<close>

definition asum :: "npfloat array2 \<Rightarrow> npfloat" where
  "asum A = fsum (concat (rows A))"

subsection \<open>likelihood\<close>

text \<open>
  \<^verbatim>\<open>
  def likelihood(mcmc, position):
      ysim = mcmc.simulate(position, observables=True)
      ysim_array = extract_records(ysim, obs_names)
      ysim_norm = normalize(ysim_array)
      return numpy.sum((ydata_norm - ysim_norm) ** 2 / (2 * exp_var ** 2))
  \<close>
  The globals \<open>ydata_norm\<close> and \<open>exp_var\<close> are loaded from two files that are not part
  of the source; they are arguments here. Nothing assigns to them after the load. The
  extracted array holds the finite floats of the simulation, which \<open>amap Num\<close> reads as
  floats.
\<close>

definition likelihood ::
  "real array2 \<Rightarrow> real array2 \<Rightarrow> mcmc \<Rightarrow> real list \<Rightarrow> (error + npfloat) \<times> mcmc" where
  "likelihood ydata_norm exp_var m position =
     (let (ysim, m') = simulate m (Some position) True in
      (on_value ysim (\<lambda>ysim.
       on_value (extract_records ysim obs_names) (\<lambda>ysim_array.
       on_value (normalize (amap Num ysim_array)) (\<lambda>ysim_norm.
       on_value (broadcast2 fsub (amap Num ydata_norm) ysim_norm) (\<lambda>d.
       on_value (broadcast2 fdiv (amap fsquare d) (amap (\<lambda>v. Num (2 * v\<^sup>2)) exp_var)) (\<lambda>q.
         Inr (asum q)))))), m'))"

subsection \<open>prior\<close>

text \<open>
  \<^verbatim>\<open>
  def prior(mcmc, position):
      return numpy.sum((position - prior_mean) ** 2 / ( 2 * prior_var))

  prior_mean = [numpy.log10(p.value) for p in opts.estimate_params]
  \<close>
\<close>

definition prior_mean :: "parameter list \<Rightarrow> npfloat list" where
  "prior_mean estimated = map (\<lambda>p. flog10 (pvalue p)) estimated"

definition prior :: "npfloat list \<Rightarrow> mcmc \<Rightarrow> real list \<Rightarrow> error + npfloat" where
  "prior prior_mean_value m position =
     on_value (broadcast1 fsub (map Num position) prior_mean_value) (\<lambda>d.
       Inr (fsum (map (\<lambda>x. fdiv (fsquare x) (Num (2 * prior_var))) d)))"

subsection \<open>step\<close>

text \<open>
  \<^verbatim>\<open>
  def step(mcmc):
      if mcmc.iter % 20 == 0:
          print('iter=%-5d  sigma=%-.3f  T=%-.3f  acc=%-.3f, lkl=%g  prior=%g  post=%g' % \
              (mcmc.iter, mcmc.sig_value, mcmc.T, float(mcmc.acceptance)/(mcmc.iter+1),
               mcmc.accept_likelihood, mcmc.accept_prior, mcmc.accept_posterior))
  \<close>
  The standard output is the list of the lines printed so far; a line is the tuple of
  values that the format string is applied to, the text of the numbers is not modelled.
  Python's \<^verbatim>\<open>%\<close> on integers is the remainder of the floored division, which is
  \<open>mod\<close> on \<open>int\<close>, and its division of floats raises on a zero divisor.
\<close>

record stats_line =
  line_iter :: int
  line_sigma :: real
  line_T :: real
  line_acc :: real
  line_lkl :: real
  line_prior :: real
  line_post :: real

definition py_truediv :: "real \<Rightarrow> real \<Rightarrow> error + real" where
  "py_truediv a b = (if b = 0 then Inl ZeroDivisionError else Inr (a / b))"

definition step :: "mcmc \<Rightarrow> stats_line list \<Rightarrow> error + stats_line list" where
  "step m out =
     (if iter m mod 20 = 0
      then on_value (py_truediv (real_of_int (acceptance m)) (real_of_int (iter m + 1))) (\<lambda>acc.
             Inr (out @ [\<lparr>line_iter = iter m, line_sigma = sig_value m, line_T = T m,
                           line_acc = acc, line_lkl = accept_likelihood m,
                           line_prior = accept_prior m, line_post = accept_posterior m\<rparr>]))
      else Inr out)"

subsection \<open>The options of the run\<close>

text \<open>
  Lines 54 to 90 of the script fill an options object. The object that
  \<^verbatim>\<open>bayessb.MCMCOpts()\<close> returns is an argument, and so is the model, which the
  script imports from a module that is not part of the source.
\<close>

record MCMCOpts =
  opts_model :: model
  opts_tspan :: "real list"
  integrator :: string
  nsteps :: nat
  estimate_params :: "parameter list"
  use_hessian :: bool
  hessian_period :: real
  likelihood_fn :: "mcmc \<Rightarrow> real list \<Rightarrow> (error + npfloat) \<times> mcmc"
  prior_fn :: "mcmc \<Rightarrow> real list \<Rightarrow> error + npfloat"
  step_fn :: "mcmc \<Rightarrow> stats_line list \<Rightarrow> error + stats_line list"
  seed :: nat
  atol :: real
  rtol :: real
  intsteps :: nat
  with_jacobian :: bool

text \<open>The estimation scenarios, lines 63 to 75.\<close>

definition choose_scenario :: "int \<Rightarrow> model \<Rightarrow> MCMCOpts \<Rightarrow> error + MCMCOpts" where
  "choose_scenario scen mdl opts =
     (if scen = 1 then Inr (opts\<lparr>estimate_params := parameters_rules mdl\<rparr>)
      else if scen = 2 then
        Inr (opts\<lparr>estimate_params := parameters_rules mdl, use_hessian := True,
                  hessian_period := real (nsteps opts) / 6\<rparr>)
      else Inl (RuntimeError ''unknown scenario number''))"

definition configure ::
  "model \<Rightarrow> real array2 \<Rightarrow> real array2 \<Rightarrow> MCMCOpts \<Rightarrow> error + MCMCOpts" where
  "configure mdl ydata_norm exp_var opts0 =
     on_value (choose_scenario scenario mdl
                 (opts0\<lparr>opts_model := mdl, opts_tspan := tspan, integrator := ''vode'',
                        nsteps := 50000\<rparr>)) (\<lambda>opts.
       Inr (opts\<lparr>likelihood_fn := likelihood ydata_norm exp_var,
                 prior_fn := prior (prior_mean (estimate_params opts)),
                 step_fn := step, seed := 1, atol := 1 / 10 ^ 6, rtol := 1 / 10 ^ 3,
                 intsteps := 5000, with_jacobian := True\<rparr>))"

subsection \<open>After the run\<close>

text \<open>
  Lines 95 to 127, once \<^verbatim>\<open>mcmc.run()\<close> has returned: the table of fitted values, the
  plots and the two files. Printing and plotting leave no trace in the model, but the
  calls that compute what is plotted are made, in the order of the source, and any of
  them can raise before the files are written. \<^verbatim>\<open>pysb.integrate.odesolve\<close> is an
  argument. The file system is a map from file names to what \<^verbatim>\<open>numpy.save\<close> wrote.
\<close>

datatype saved = Positions "real list list" | FittedParams "(parameter \<times> real) list"

text \<open>\<^verbatim>\<open>a[idx]\<close> with a list of indices.\<close>

definition take_indices :: "'a list \<Rightarrow> nat list \<Rightarrow> error + 'a list" where
  "take_indices a idx =
     (if list_all (\<lambda>i. i < length a) idx then Inr (map (\<lambda>i. a ! i) idx) else Inl IndexError)"

definition after_run ::
  "MCMCOpts \<Rightarrow> mcmc \<Rightarrow> (model \<Rightarrow> real list \<Rightarrow> error + recarray) \<Rightarrow>
   (string \<rightharpoonup> saved) \<Rightarrow> error + (string \<rightharpoonup> saved)" where
  "after_run opts m odesolve files =
     on_value (take_indices (cur_params m) (estimate_idx m)) (\<lambda>fitted_values.
     on_value (odesolve (opts_model opts) tspan) (\<lambda>yinitial.
     on_value (extract_records yinitial obs_names) (\<lambda>yinitial_array.
     on_value (fst (simulate m None True)) (\<lambda>yfinal.
     on_value (extract_records yfinal obs_names) (\<lambda>yfinal_array.
     on_value (normalize (amap Num yinitial_array)) (\<lambda>initial_lines.
     on_value (normalize (amap Num yfinal_array)) (\<lambda>final_lines.
     on_value (take_indices (cur_params m) (estimate_idx m)) (\<lambda>fitted.
       Inr (files(''calibration_allpositions_A431_highEGF.npy'' \<mapsto>
                    Positions (get_mixed_accepts m (real (nsteps opts) / 10)),
                  ''calibration_fittedparams_A431_highEGF.npy'' \<mapsto>
                    FittedParams (zip (estimate_params opts) fitted)))))))))))"

subsection \<open>Example inputs\<close>

text \<open>
  The example record array of the proofs below: three records with the fields \<open>a\<close> and
  \<open>b\<close>.
\<close>

definition r0 :: recarray where
  "r0 = \<lparr>field_names = [''a'', ''b''], records = [[1, 2], [3, 4], [5, 6]]\<rparr>"

text \<open>An example matrix of trajectories: three time points, two observables.\<close>

definition A0 :: "real array2" where
  "A0 = \<lparr>ncols = 2, rows = [[1, 10], [3, 30], [2, 50]]\<rparr>"

text \<open>
  A matrix with one column that holds an infinity, as a simulation that diverges gives.
\<close>

definition Ainf :: "npfloat array2" where
  "Ainf = \<lparr>ncols = 1, rows = [[Num 0], [Num 1], [PInf]]\<rparr>"

text \<open>A sampler at iteration 40 with 10 accepted moves, whose solver fails.\<close>

definition m0 :: mcmc where
  "m0 = \<lparr>simulate_fn = (\<lambda>p obs. Inl SimulationError), simulate_calls = [],
         iter = 40, sig_value = 1, T = 1, acceptance = 10,
         accept_likelihood = 2, accept_prior = 3, accept_posterior = 5,
         cur_params = [], estimate_idx = [], get_mixed_accepts = (\<lambda>b. [])\<rparr>"

text \<open>
  A simulation of two time points, a sampler whose solver returns it, and experimental
  data and standard deviations of the matching shape.
\<close>

definition ysim0 :: recarray where
  "ysim0 = \<lparr>field_names = [''obsERKPP'', ''obsAKTPP'', ''obsErbB1_ErbB_P_CE''],
            records = [[2, 0, 1], [6, 4, 3]]\<rparr>"

definition m1 :: mcmc where
  "m1 = m0\<lparr>simulate_fn := (\<lambda>p obs. Inr ysim0)\<rparr>"

definition Y0 :: "real array2" where
  "Y0 = \<lparr>ncols = 3, rows = [[1, 0, 0], [1, 1, 0]]\<rparr>"

definition V0 :: "real array2" where
  "V0 = \<lparr>ncols = 3, rows = [[1, 1, 1], [1, 1, 2]]\<rparr>"

text \<open>
  The model that declares the receptor layer of \<^verbatim>\<open>chen_modules.py\<close>: its monomers, its
  initial conditions and its rules, with the parameters in the order of their creation.
\<close>

definition receptor_model :: model where
  "receptor_model =
     \<lparr>monomers = rec_monomers,
      parameters = map snd rec_initial @ concat (map rule_rates rec_events),
      rules = rec_events,
      initial_conditions = rec_initial\<rparr>"


text \<open>An options object before the script fills it, a sampler after a run, a solver.\<close>

definition empty_model :: model where
  "empty_model = \<lparr>monomers = [], parameters = [], rules = [], initial_conditions = []\<rparr>"

definition opts_default :: MCMCOpts where
  "opts_default =
     \<lparr>opts_model = empty_model, opts_tspan = [], integrator = [], nsteps = 0,
      estimate_params = [], use_hessian = False, hessian_period = 0,
      likelihood_fn = (\<lambda>m p. (Inl SimulationError, m)),
      prior_fn = (\<lambda>m p. Inl SimulationError), step_fn = (\<lambda>m out. Inr out),
      seed = 0, atol = 0, rtol = 0, intsteps = 0, with_jacobian = False\<rparr>"

definition m2 :: mcmc where
  "m2 = m1\<lparr>cur_params := [10, 20, 30], estimate_idx := [2, 0],
           get_mixed_accepts := (\<lambda>burn. if burn = 5000 then [[1, 2]] else [])\<rparr>"

definition odesolve0 :: "model \<Rightarrow> real list \<Rightarrow> error + recarray" where
  "odesolve0 mdl ts = Inr ysim0"

section \<open>Properties\<close>

subsection \<open>Exceptions and fields\<close>

lemma on_value_Inr [simp]: "on_value (Inr x) f = f x"
  by (simp add: on_value_def)

lemma on_value_Inl [simp]: "on_value (Inl e) f = Inl e"
  by (simp add: on_value_def)

lemma field_index_Some:
  "name \<in> set fs \<Longrightarrow> \<exists>i<length fs. field_index fs name = Some i \<and> fs ! i = name"
proof (induction fs)
  case Nil
  then show ?case by simp
next
  case (Cons f fs)
  show ?case
  proof (cases "f = name")
    case True
    then show ?thesis by auto
  next
    case False
    with Cons obtain i where "i < length fs" "field_index fs name = Some i" "fs ! i = name"
      by auto
    with False show ?thesis by (intro exI [of _ "Suc i"]) simp
  qed
qed

lemma getfield_Inr:
  assumes "name \<in> set (field_names r)"
  shows "\<exists>i<length (field_names r). field_names r ! i = name \<and>
           getfield r name = Inr (map (\<lambda>q. q ! i) (records r))"
  using field_index_Some [OF assms] by (auto simp: getfield_def)

lemma getfields_Inr:
  "set names \<subseteq> set (field_names r) \<Longrightarrow>
   \<exists>cols. getfields r names = Inr cols \<and> length cols = length names \<and>
     (\<forall>k<length names. getfield r (names ! k) = Inr (cols ! k))"
proof (induction names)
  case Nil
  then show ?case by simp
next
  case (Cons name names)
  then obtain cols where cols: "getfields r names = Inr cols" "length cols = length names"
    "\<forall>k<length names. getfield r (names ! k) = Inr (cols ! k)"
    by auto
  from Cons.prems obtain col where col: "getfield r name = Inr col"
    using getfield_Inr [of name r] by auto
  have "\<forall>k<length (name # names). getfield r ((name # names) ! k) = Inr ((col # cols) ! k)"
    using col cols(3) by (auto simp: nth_Cons split: nat.splits)
  with col cols show ?case by simp
qed

lemma vstack_Inr:
  assumes "cols \<noteq> []" "\<forall>c\<in>set cols. length c = n"
  shows "vstack cols = Inr \<lparr>ncols = n, rows = cols\<rparr>"
  using assms by (cases cols) (auto simp: vstack_def list_all_iff)

lemma cell_transpose2:
  "t < nrows A \<Longrightarrow> k < ncols A \<Longrightarrow> cell (transpose2 A) k t = cell A t k"
  by (simp add: cell_def transpose2_def column_def nrows_def)

subsection \<open>extract_records\<close>

lemma extract_records_Inr:
  assumes names: "names \<noteq> []" and sub: "set names \<subseteq> set (field_names r)"
  shows "\<exists>A. extract_records r names = Inr A \<and>
           shape A = (length (records r), length names) \<and> wf_array2 A \<and>
           (\<forall>k<length names. \<exists>i<length (field_names r). field_names r ! i = names ! k \<and>
              getfield r (names ! k) = Inr (map (\<lambda>q. q ! i) (records r)) \<and>
              (\<forall>t<length (records r). cell A t k = records r ! t ! i))"
proof -
  from getfields_Inr [OF sub] obtain cols where cols: "getfields r names = Inr cols"
    "length cols = length names" "\<forall>k<length names. getfield r (names ! k) = Inr (cols ! k)"
    by auto
  have col: "\<exists>i<length (field_names r). field_names r ! i = names ! k \<and>
      getfield r (names ! k) = Inr (map (\<lambda>q. q ! i) (records r)) \<and>
      cols ! k = map (\<lambda>q. q ! i) (records r)" if "k < length names" for k
  proof -
    from that sub have "names ! k \<in> set (field_names r)" by auto
    from getfield_Inr [OF this] obtain i where "i < length (field_names r)"
      "field_names r ! i = names ! k" "getfield r (names ! k) = Inr (map (\<lambda>q. q ! i) (records r))"
      by auto
    with cols(3) that show ?thesis by auto
  qed
  have len: "\<forall>c\<in>set cols. length c = length (records r)"
  proof
    fix c assume "c \<in> set cols"
    then obtain k where "k < length names" "c = cols ! k"
      using cols(2) by (auto simp: in_set_conv_nth)
    with col [of k] show "length c = length (records r)" by auto
  qed
  from names cols(2) have ne: "cols \<noteq> []" by auto
  let ?V = "\<lparr>ncols = length (records r), rows = cols\<rparr>"
  let ?A = "transpose2 ?V"
  have ex: "extract_records r names = Inr ?A"
    by (simp add: extract_records_def cols(1) vstack_Inr [OF ne len])
  have sh: "shape ?A = (length (records r), length names)"
    by (simp add: shape_def nrows_def transpose2_def cols(2))
  have wf: "wf_array2 ?A"
    by (simp add: wf_array2_def transpose2_def list_all_iff column_def nrows_def)
  have cells: "\<forall>k<length names. \<exists>i<length (field_names r). field_names r ! i = names ! k \<and>
              getfield r (names ! k) = Inr (map (\<lambda>q. q ! i) (records r)) \<and>
              (\<forall>t<length (records r). cell ?A t k = records r ! t ! i)"
  proof (intro allI impI)
    fix k assume k: "k < length names"
    from col [OF k] obtain i where i: "i < length (field_names r)"
      "field_names r ! i = names ! k"
      "getfield r (names ! k) = Inr (map (\<lambda>q. q ! i) (records r))"
      "cols ! k = map (\<lambda>q. q ! i) (records r)"
      by auto
    have "\<forall>t<length (records r). cell ?A t k = records r ! t ! i"
    proof (intro allI impI)
      fix t assume t: "t < length (records r)"
      with k cols(2) have "cell (transpose2 ?V) t k = cell ?V k t"
        by (intro cell_transpose2) (simp_all add: nrows_def)
      with i(4) t show "cell ?A t k = records r ! t ! i" by (simp add: cell_def)
    qed
    with i(1-3) show "\<exists>i<length (field_names r). field_names r ! i = names ! k \<and>
              getfield r (names ! k) = Inr (map (\<lambda>q. q ! i) (records r)) \<and>
              (\<forall>t<length (records r). cell ?A t k = records r ! t ! i)"
      by blast
  qed
  from ex sh wf cells show ?thesis by blast
qed

text \<open>
  Claim C9. For every record array \<open>r\<close> and every list \<open>names\<close> of fields of \<open>r\<close>,
  \<open>extract_records r names\<close> is a two-dimensional array with one row per record and one
  column per name, whose entry at row \<open>t\<close> and column \<open>k\<close> is \<open>r[names[k]][t]\<close>, the
  field \<open>names[k]\<close> of the record \<open>t\<close>: the columns are in the order of \<open>names\<close>, the
  rows in the order of the records. This holds when \<open>names\<close> is not empty.
\<close>

theorem extract_records_columns:
  assumes "names \<noteq> []" and "set names \<subseteq> set (field_names r)"
  shows "\<exists>A. extract_records r names = Inr A \<and>
           shape A = (length (records r), length names) \<and> wf_array2 A \<and>
           (\<forall>k<length names. \<exists>i<length (field_names r). field_names r ! i = names ! k \<and>
              getfield r (names ! k) = Inr (map (\<lambda>q. q ! i) (records r)) \<and>
              (\<forall>t<length (records r). cell A t k = records r ! t ! i))"
  using assms by (rule extract_records_Inr)

theorem extract_records_columns_witness:
  "[''b'', ''a''] \<noteq> [] \<and> set [''b'', ''a''] \<subseteq> set (field_names r0) \<and>
   (\<exists>A. extract_records r0 [''b'', ''a''] = Inr A \<and> shape A = (3, 2) \<and>
      (\<exists>i<2. field_names r0 ! i = ''b'' \<and> cell A 2 0 = records r0 ! 2 ! i))"
proof -
  have ne: "[''b'', ''a''] \<noteq> []" by simp
  have sub: "set [''b'', ''a''] \<subseteq> set (field_names r0)" by (simp add: r0_def)
  from extract_records_columns [OF ne sub] obtain A where
    A: "extract_records r0 [''b'', ''a''] = Inr A"
       "shape A = (length (records r0), length [''b'', ''a''])"
       "\<forall>k<length [''b'', ''a'']. \<exists>i<length (field_names r0).
          field_names r0 ! i = [''b'', ''a''] ! k \<and>
          getfield r0 ([''b'', ''a''] ! k) = Inr (map (\<lambda>q. q ! i) (records r0)) \<and>
          (\<forall>t<length (records r0). cell A t k = records r0 ! t ! i)"
    by blast
  from A(3) have "\<exists>i<length (field_names r0). field_names r0 ! i = [''b'', ''a''] ! 0 \<and>
      (\<forall>t<length (records r0). cell A t 0 = records r0 ! t ! i)"
    by fastforce
  then obtain i where i: "i < length (field_names r0)" "field_names r0 ! i = [''b'', ''a''] ! 0"
    "\<forall>t<length (records r0). cell A t 0 = records r0 ! t ! i"
    by blast
  have "(2::nat) < length (records r0)" by (simp add: r0_def)
  with i(3) have "cell A 2 0 = records r0 ! 2 ! i" by blast
  moreover from i(1) have "i < 2" by (simp add: r0_def)
  moreover from i(2) have "field_names r0 ! i = ''b''" by simp
  ultimately have "\<exists>i<2. field_names r0 ! i = ''b'' \<and> cell A 2 0 = records r0 ! 2 ! i"
    by blast
  moreover from A(2) have "shape A = (3, 2)" by (simp add: r0_def)
  ultimately show ?thesis using A(1) ne sub by blast
qed

text \<open>
  With no name at all the list of columns is empty and \<^verbatim>\<open>numpy.vstack\<close> raises: no
  array is returned, although every name of the empty list is a field.
\<close>

theorem extract_records_no_names:
  "set [] \<subseteq> set (field_names r0) \<and> extract_records r0 [] = Inl ValueError"
  by (simp add: extract_records_def vstack_def)

subsection \<open>normalize\<close>

lemma bidx_less: "i < m \<Longrightarrow> bidx m i = i"
  by (auto simp: bidx_def)

lemma bdim_same [simp]: "bdim n n = Some n"
  by (simp add: bdim_def)

lemma bdim_one [simp]: "bdim n (Suc 0) = Some n"
  by (simp add: bdim_def)

lemma reduce0_Cons:
  "rows A = r # rs \<Longrightarrow>
   reduce0 f A = Inr (map (\<lambda>k. fold f (map (\<lambda>q. q ! k) rs) (r ! k)) [0..<ncols A])"
  by (simp add: reduce0_def)

lemma fold_fmin_Num: "fold fmin (map Num xs) (Num x) = Num (fold min xs x)"
  by (induction xs arbitrary: x) simp_all

lemma fold_fmax_Num: "fold fmax (map Num xs) (Num x) = Num (fold max xs x)"
  by (induction xs arbitrary: x) simp_all

lemma reduce0_Num:
  assumes wf: "wf_array2 A" and rs: "rows A = r # rs" and k: "k < ncols A"
  shows "fold f (map (\<lambda>q. q ! k) (map (map Num) rs)) (map Num r ! k) =
         fold f (map Num (map (\<lambda>q. q ! k) rs)) (Num (r ! k))"
proof -
  from wf rs k have "k < length r" by (simp add: wf_array2_def)
  then have hd: "map Num r ! k = Num (r ! k)" by simp
  have nth: "map Num q ! k = Num (q ! k)" if "q \<in> set rs" for q
  proof -
    from wf rs that k have "k < length q" by (auto simp: wf_array2_def list_all_iff)
    then show ?thesis by simp
  qed
  have "map (\<lambda>q. q ! k) (map (map Num) rs) = map Num (map (\<lambda>q. q ! k) rs)"
    unfolding map_map by (rule map_cong [OF refl]) (simp add: nth)
  with hd show ?thesis by (simp only:)
qed

lemma amin0_Min:
  assumes wf: "wf_array2 A" and ne: "rows A \<noteq> []"
  shows "amin0 (amap Num A) = Inr (map (\<lambda>k. Num (Min (set (column A k)))) [0..<ncols A])"
proof -
  from ne obtain r rs where rs: "rows A = r # rs" by (cases "rows A") auto
  have "fold fmin (map (\<lambda>q. q ! k) (map (map Num) rs)) (map Num r ! k) =
      Num (Min (set (column A k)))" if k: "k < ncols A" for k
  proof -
    have "column A k = r ! k # map (\<lambda>q. q ! k) rs" by (simp add: column_def rs)
    then have "Min (set (column A k)) = fold min (map (\<lambda>q. q ! k) rs) (r ! k)"
      by (simp only: Min.set_eq_fold)
    then show ?thesis by (simp only: reduce0_Num [OF wf rs k] fold_fmin_Num)
  qed
  then have "map (\<lambda>k. fold fmin (map (\<lambda>q. q ! k) (map (map Num) rs)) (map Num r ! k))
      [0..<ncols A] = map (\<lambda>k. Num (Min (set (column A k)))) [0..<ncols A]"
    by simp
  then show ?thesis by (simp add: amin0_def reduce0_def amap_def rs)
qed

lemma amax0_Max:
  assumes wf: "wf_array2 A" and ne: "rows A \<noteq> []"
  shows "amax0 (amap Num A) = Inr (map (\<lambda>k. Num (Max (set (column A k)))) [0..<ncols A])"
proof -
  from ne obtain r rs where rs: "rows A = r # rs" by (cases "rows A") auto
  have "fold fmax (map (\<lambda>q. q ! k) (map (map Num) rs)) (map Num r ! k) =
      Num (Max (set (column A k)))" if k: "k < ncols A" for k
  proof -
    have "column A k = r ! k # map (\<lambda>q. q ! k) rs" by (simp add: column_def rs)
    then have "Max (set (column A k)) = fold max (map (\<lambda>q. q ! k) rs) (r ! k)"
      by (simp only: Max.set_eq_fold)
    then show ?thesis by (simp only: reduce0_Num [OF wf rs k] fold_fmax_Num)
  qed
  then have "map (\<lambda>k. fold fmax (map (\<lambda>q. q ! k) (map (map Num) rs)) (map Num r ! k))
      [0..<ncols A] = map (\<lambda>k. Num (Max (set (column A k)))) [0..<ncols A]"
    by simp
  then show ?thesis by (simp add: amax0_def reduce0_def amap_def rs)
qed

lemma nrows_tabulate2 [simp]: "nrows (tabulate2 r c g) = r"
  by (simp add: tabulate2_def nrows_def)

lemma ncols_tabulate2 [simp]: "ncols (tabulate2 r c g) = c"
  by (simp add: tabulate2_def)

lemma shape_tabulate2 [simp]: "shape (tabulate2 r c g) = (r, c)"
  by (simp add: shape_def)

lemma wf_tabulate2 [simp]: "wf_array2 (tabulate2 r c g)"
  by (simp add: tabulate2_def wf_array2_def list_all_iff)

lemma cell_tabulate2 [simp]: "t < r \<Longrightarrow> k < c \<Longrightarrow> cell (tabulate2 r c g) t k = g t k"
  by (simp add: tabulate2_def cell_def)

lemma tabulate2_cong:
  assumes "\<And>t k. t < r \<Longrightarrow> k < c \<Longrightarrow> g t k = h t k"
  shows "tabulate2 r c g = tabulate2 r c h"
  using assms by (simp add: tabulate2_def)


lemma amap_wf:
  assumes "wf_array2 A"
  shows "amap f A = tabulate2 (nrows A) (ncols A) (\<lambda>t k. f (cell A t k))"
proof -
  have "map f r = map (\<lambda>k. f (r ! k)) [0..<ncols A]" if "r \<in> set (rows A)" for r
  proof -
    from assms that have "length r = ncols A" by (simp add: wf_array2_def list_all_iff)
    then show ?thesis by (intro nth_equalityI) simp_all
  qed
  then have "map (map f) (rows A) = map (\<lambda>r. map (\<lambda>k. f (r ! k)) [0..<ncols A]) (rows A)"
    by simp
  also have "\<dots> = map (\<lambda>t. map (\<lambda>k. f (rows A ! t ! k)) [0..<ncols A]) [0..<length (rows A)]"
    by (intro nth_equalityI) simp_all
  finally show ?thesis by (simp add: amap_def tabulate2_def nrows_def cell_def)
qed

lemma nrows_as_row [simp]: "nrows (as_row v) = Suc 0"
  by (simp add: as_row_def nrows_def)

lemma ncols_as_row [simp]: "ncols (as_row v) = length v"
  by (simp add: as_row_def)

lemma broadcast2_row:
  assumes "length v = ncols A"
  shows "broadcast2 f A (as_row v) =
    Inr (tabulate2 (nrows A) (ncols A) (\<lambda>t k. f (cell A t k) (v ! k)))"
proof -
  have "tabulate2 (nrows A) (ncols A)
      (\<lambda>t k. f (cell A (bidx (nrows A) t) (bidx (ncols A) k))
               (cell (as_row v) (bidx (Suc 0) t) (bidx (ncols A) k))) =
    tabulate2 (nrows A) (ncols A) (\<lambda>t k. f (cell A t k) (v ! k))"
    by (rule tabulate2_cong) (simp add: bidx_less, simp add: bidx_def cell_def as_row_def)
  with assms show ?thesis by (simp add: broadcast2_def)
qed


lemma broadcast1_same:
  assumes "length u = length v"
  shows "broadcast1 f u v = Inr (map (\<lambda>k. f (u ! k) (v ! k)) [0..<length v])"
  using assms by (simp add: broadcast1_def bidx_less)

lemma amap_as_row: "amap f (as_row v) = as_row (map f v)"
  by (simp add: amap_def as_row_def)

lemma normalize_Inr:
  assumes wf: "wf_array2 A" and ne: "rows A \<noteq> []"
  shows "normalize (amap Num A) =
    Inr (tabulate2 (nrows A) (ncols A)
          (\<lambda>t k. fdiv (Num (cell A t k - Min (set (column A k))))
                       (Num (Max (set (column A k)) - Min (set (column A k))))))"
proof -
  let ?F = "amap Num A"
  let ?ymin = "map (\<lambda>k. Num (Min (set (column A k)))) [0..<ncols A]"
  let ?ymax = "map (\<lambda>k. Num (Max (set (column A k)))) [0..<ncols A]"
  let ?num = "tabulate2 (nrows A) (ncols A) (\<lambda>t k. Num (cell A t k - Min (set (column A k))))"
  let ?den = "map (\<lambda>k. Num (Max (set (column A k)) - Min (set (column A k)))) [0..<ncols A]"
  have F: "?F = tabulate2 (nrows A) (ncols A) (\<lambda>t k. Num (cell A t k))"
    by (rule amap_wf [OF wf])
  have "broadcast2 fsub ?F (as_row ?ymin) =
      Inr (tabulate2 (nrows ?F) (ncols ?F) (\<lambda>t k. fsub (cell ?F t k) (?ymin ! k)))"
    by (rule broadcast2_row) (simp add: F)
  also have "tabulate2 (nrows ?F) (ncols ?F) (\<lambda>t k. fsub (cell ?F t k) (?ymin ! k)) = ?num"
    unfolding F nrows_tabulate2 ncols_tabulate2 by (rule tabulate2_cong) simp
  finally have num: "broadcast2 fsub ?F (as_row ?ymin) = Inr ?num" .
  have "broadcast1 fsub ?ymax ?ymin =
      Inr (map (\<lambda>k. fsub (?ymax ! k) (?ymin ! k)) [0..<length ?ymin])"
    by (rule broadcast1_same) simp
  also have "map (\<lambda>k. fsub (?ymax ! k) (?ymin ! k)) [0..<length ?ymin] = ?den"
    by simp
  finally have den: "broadcast1 fsub ?ymax ?ymin = Inr ?den" .
  have "normalize ?F = broadcast2 fdiv ?num (as_row ?den)"
    by (simp only: normalize_def amin0_Min [OF wf ne] amax0_Max [OF wf ne] on_value_Inr num den)
  also have "\<dots> = Inr (tabulate2 (nrows ?num) (ncols ?num)
      (\<lambda>t k. fdiv (cell ?num t k) (?den ! k)))"
    by (rule broadcast2_row) simp
  also have "tabulate2 (nrows ?num) (ncols ?num) (\<lambda>t k. fdiv (cell ?num t k) (?den ! k)) =
      tabulate2 (nrows A) (ncols A)
          (\<lambda>t k. fdiv (Num (cell A t k - Min (set (column A k))))
                       (Num (Max (set (column A k)) - Min (set (column A k)))))"
    unfolding nrows_tabulate2 ncols_tabulate2 by (rule tabulate2_cong) simp
  finally show ?thesis .
qed

lemma cell_in_column: "t < nrows A \<Longrightarrow> cell A t k \<in> set (column A k)"
  by (simp add: cell_def column_def nrows_def)

lemma column_bounds:
  assumes "t < nrows A"
  shows "Min (set (column A k)) \<le> cell A t k" "cell A t k \<le> Max (set (column A k))"
  using cell_in_column [OF assms, of k] by simp_all

lemma column_attains:
  assumes "rows A \<noteq> []"
  shows "\<exists>t<nrows A. cell A t k = Min (set (column A k))"
    and "\<exists>t<nrows A. cell A t k = Max (set (column A k))"
proof -
  from assms have ne: "set (column A k) \<noteq> {}" by (simp add: column_def)
  have "Min (set (column A k)) \<in> set (column A k)" using ne by (intro Min_in) simp_all
  then show "\<exists>t<nrows A. cell A t k = Min (set (column A k))"
    by (auto simp: in_set_conv_nth column_def cell_def nrows_def)
  have "Max (set (column A k)) \<in> set (column A k)" using ne by (intro Max_in) simp_all
  then show "\<exists>t<nrows A. cell A t k = Max (set (column A k))"
    by (auto simp: in_set_conv_nth column_def cell_def nrows_def)
qed

lemma normalize_cell:
  assumes "wf_array2 A" "rows A \<noteq> []" "normalize (amap Num A) = Inr N" "t < nrows A" "k < ncols A"
  shows "cell N t k = fdiv (Num (cell A t k - Min (set (column A k))))
                          (Num (Max (set (column A k)) - Min (set (column A k))))"
  using assms(3-5) unfolding normalize_Inr [OF assms(1,2)]
  by auto

lemma normalize_shape:
  assumes "wf_array2 A" "rows A \<noteq> []" "normalize (amap Num A) = Inr N"
  shows "shape N = shape A" "wf_array2 N"
  using assms(3) unfolding normalize_Inr [OF assms(1,2)]
  by (auto simp: shape_def)

lemma unit_scaled:
  fixes a mn mx :: real
  assumes "mn \<le> a" "a \<le> mx" "mn < mx"
  shows "0 \<le> (a - mn) / (mx - mn)" "(a - mn) / (mx - mn) \<le> 1"
    "a = mn \<Longrightarrow> (a - mn) / (mx - mn) = 0" "a = mx \<Longrightarrow> (a - mn) / (mx - mn) = 1"
  using assms by (simp_all add: divide_le_eq)

lemma normalize_constant_column:
  assumes wf: "wf_array2 A" and ne: "rows A \<noteq> []" and k: "k < ncols A"
    and const: "Min (set (column A k)) = Max (set (column A k))"
  shows "\<exists>N. normalize (amap Num A) = Inr N \<and> (\<forall>t<nrows A. cell N t k = NaN)"
proof -
  from normalize_Inr [OF wf ne] obtain N where N: "normalize (amap Num A) = Inr N" by blast
  have "cell N t k = NaN" if t: "t < nrows A" for t
  proof -
    from column_bounds [OF t, of k] const have "cell A t k = Min (set (column A k))" by simp
    with normalize_cell [OF wf ne N t k] const show ?thesis by simp
  qed
  with N show ?thesis by blast
qed

lemma normalize_empty: "rows A = [] \<Longrightarrow> normalize A = Inl ValueError"
  by (simp add: normalize_def amin0_def reduce0_def)

text \<open>
  Claim C8. For every input matrix of finite entries in which the maximum of each column
  is strictly greater than its minimum and the range \<open>max - min\<close> of no column
  overflows, \<open>normalize\<close> returns a matrix of the same shape whose entries are all
  numbers of the closed interval from 0 to 1; an entry equal to the minimum of its column
  becomes 0, one equal to the maximum becomes 1, and both values occur in every column.
  Under this precondition no divisor \<open>ymax - ymin\<close> is zero. The arithmetic on finite
  values is exact here, so the hypotheses keep the theorem to the matrices of float64
  values on which the subtraction of the program stays finite as well. (For a constant
  column the divisor is zero and the column becomes \<^verbatim>\<open>nan\<close>:
  \<open>normalize_constant_column\<close>.)
\<close>

theorem normalize_unit_interval:
  assumes wf: "wf_array2 R" and ne: "rows R \<noteq> []"
    and fin: "\<forall>r\<in>set (rows R). \<forall>x\<in>set r. representable x"
    and gt: "\<forall>k<ncols R. Min (set (column R k)) < Max (set (column R k))"
    and range: "\<forall>k<ncols R. representable (Max (set (column R k)) - Min (set (column R k)))"
  shows "\<exists>N ymin ymax. normalize (amap Num R) = Inr N \<and> shape N = shape R \<and> wf_array2 N \<and>
     amin0 (amap Num R) = Inr ymin \<and> amax0 (amap Num R) = Inr ymax \<and>
     (\<forall>k<ncols R. ymin ! k = Num (Min (set (column R k))) \<and>
        ymax ! k = Num (Max (set (column R k))) \<and>
        flt (ymin ! k) (ymax ! k) \<and> fsub (ymax ! k) (ymin ! k) \<noteq> Num 0 \<and>
        (\<exists>t<nrows R. cell N t k = Num 0) \<and> (\<exists>t<nrows R. cell N t k = Num 1)) \<and>
     (\<forall>t<nrows R. \<forall>k<ncols R. \<exists>v. cell N t k = Num v \<and> 0 \<le> v \<and> v \<le> 1 \<and>
        (cell R t k = Min (set (column R k)) \<longrightarrow> v = 0) \<and>
        (cell R t k = Max (set (column R k)) \<longrightarrow> v = 1))"
proof -
  from normalize_Inr [OF wf ne] obtain N where N: "normalize (amap Num R) = Inr N" by blast
  note sh = normalize_shape [OF wf ne N]
  let ?mn = "\<lambda>k. Min (set (column R k))" and ?mx = "\<lambda>k. Max (set (column R k))"
  have cellv: "cell N t k = Num ((cell R t k - ?mn k) / (?mx k - ?mn k))"
    if "t < nrows R" "k < ncols R" for t k
  proof -
    from gt that(2) have "?mx k - ?mn k \<noteq> 0" by fastforce
    with normalize_cell [OF wf ne N that] show ?thesis by simp
  qed
  have cells: "\<forall>t<nrows R. \<forall>k<ncols R. \<exists>v. cell N t k = Num v \<and> 0 \<le> v \<and> v \<le> 1 \<and>
        (cell R t k = ?mn k \<longrightarrow> v = 0) \<and> (cell R t k = ?mx k \<longrightarrow> v = 1)"
  proof (intro allI impI)
    fix t k assume t: "t < nrows R" and k: "k < ncols R"
    from gt k have lt: "?mn k < ?mx k" by simp
    note b = column_bounds [OF t, of k]
    from unit_scaled [OF b lt] cellv [OF t k]
    show "\<exists>v. cell N t k = Num v \<and> 0 \<le> v \<and> v \<le> 1 \<and>
        (cell R t k = ?mn k \<longrightarrow> v = 0) \<and> (cell R t k = ?mx k \<longrightarrow> v = 1)"
      by blast
  qed
  let ?ymin = "map (\<lambda>k. Num (?mn k)) [0..<ncols R]"
  let ?ymax = "map (\<lambda>k. Num (?mx k)) [0..<ncols R]"
  have cols: "\<forall>k<ncols R. ?ymin ! k = Num (?mn k) \<and> ?ymax ! k = Num (?mx k) \<and>
        flt (?ymin ! k) (?ymax ! k) \<and> fsub (?ymax ! k) (?ymin ! k) \<noteq> Num 0 \<and>
        (\<exists>t<nrows R. cell N t k = Num 0) \<and> (\<exists>t<nrows R. cell N t k = Num 1)"
  proof (intro allI impI)
    fix k assume k: "k < ncols R"
    from gt k have lt: "?mn k < ?mx k" by simp
    from column_attains(1) [OF ne, of k] obtain t0 where t0: "t0 < nrows R" "cell R t0 k = ?mn k"
      by blast
    from column_attains(2) [OF ne, of k] obtain t1 where t1: "t1 < nrows R" "cell R t1 k = ?mx k"
      by blast
    have "cell N t0 k = Num 0" using cellv [OF t0(1) k] t0(2) by simp
    moreover have "cell N t1 k = Num 1" using cellv [OF t1(1) k] t1(2) lt by simp
    ultimately show "?ymin ! k = Num (?mn k) \<and> ?ymax ! k = Num (?mx k) \<and>
        flt (?ymin ! k) (?ymax ! k) \<and> fsub (?ymax ! k) (?ymin ! k) \<noteq> Num 0 \<and>
        (\<exists>t<nrows R. cell N t k = Num 0) \<and> (\<exists>t<nrows R. cell N t k = Num 1)"
      using k lt t0(1) t1(1) by auto
  qed
  from N sh amin0_Min [OF wf ne] amax0_Max [OF wf ne] cols cells show ?thesis by blast
qed

theorem normalize_unit_interval_witness:
  "wf_array2 A0 \<and> rows A0 \<noteq> [] \<and>
   representable 50 \<and> representable (50 - 10) \<and>
   Min (set (column A0 0)) < Max (set (column A0 0)) \<and>
   Min (set (column A0 1)) < Max (set (column A0 1)) \<and>
   (\<exists>N. normalize (amap Num A0) = Inr N \<and> shape N = (3, 2) \<and>
      (\<exists>v. cell N 2 0 = Num v \<and> 0 \<le> v \<and> v \<le> 1))"
proof -
  have wf: "wf_array2 A0" by (simp add: wf_array2_def A0_def)
  have ne: "rows A0 \<noteq> []" by (simp add: A0_def)
  have fin: "\<forall>r\<in>set (rows A0). \<forall>x\<in>set r. representable x"
    by (simp add: A0_def representable_def float_max_def)
  have gt: "\<forall>k<ncols A0. Min (set (column A0 k)) < Max (set (column A0 k))"
    by (simp add: A0_def column_def less_Suc_eq numeral_2_eq_2)
  have range: "\<forall>k<ncols A0. representable (Max (set (column A0 k)) - Min (set (column A0 k)))"
    by (simp add: A0_def column_def less_Suc_eq numeral_2_eq_2 representable_def float_max_def)
  from normalize_unit_interval [OF wf ne fin gt range] obtain N where
    N: "normalize (amap Num A0) = Inr N" "shape N = shape A0"
       "\<forall>t<nrows A0. \<forall>k<ncols A0. \<exists>v. cell N t k = Num v \<and> 0 \<le> v \<and> v \<le> 1 \<and>
        (cell A0 t k = Min (set (column A0 k)) \<longrightarrow> v = 0) \<and>
        (cell A0 t k = Max (set (column A0 k)) \<longrightarrow> v = 1)"
    by blast
  have "(2::nat) < nrows A0" "(0::nat) < ncols A0" by (simp_all add: A0_def nrows_def)
  with N(3) have "\<exists>v. cell N 2 0 = Num v \<and> 0 \<le> v \<and> v \<le> 1" by blast
  moreover from N(2) have "shape N = (3, 2)" by (simp add: shape_def nrows_def A0_def)
  moreover have "Min (set (column A0 0)) < Max (set (column A0 0))"
    "Min (set (column A0 1)) < Max (set (column A0 1))"
    by (simp_all add: A0_def column_def)
  moreover have "representable 50" "representable (50 - 10)"
    by (simp_all add: representable_def float_max_def)
  ultimately show ?thesis using wf ne N(1) by blast
qed

text \<open>
  A column that holds an infinity has a maximum that is strictly greater than its
  minimum, and its range \<open>inf - 0\<close> is infinite: the entries below the maximum become 0
  and the maximum itself becomes \<open>inf / inf\<close>, which is \<^verbatim>\<open>nan\<close> and not 1.
\<close>

theorem normalize_infinite_entry:
  "wf_array2 Ainf \<and> amin0 Ainf = Inr [Num 0] \<and> amax0 Ainf = Inr [PInf] \<and>
   flt (Num 0) PInf \<and>
   normalize Ainf = Inr \<lparr>ncols = 1, rows = [[Num 0], [Num 0], [NaN]]\<rparr>"
  by (simp add: Ainf_def wf_array2_def normalize_def amin0_def amax0_def reduce0_def
      broadcast2_def broadcast1_def tabulate2_def bdim_def bidx_def cell_def as_row_def
      nrows_def upt_rec)

subsection \<open>likelihood\<close>

lemma foldl_fadd_Num: "foldl fadd (Num a) (map Num xs) = Num (a + sum_list xs)"
  by (induction xs arbitrary: a) (simp_all add: add.assoc)

lemma fsum_Num: "fsum (map Num xs) = Num (sum_list xs)"
  by (simp add: fsum_def foldl_fadd_Num)








subsection \<open>prior\<close>

lemma sum_list_upt: "sum_list (map f [0..<n]) = (\<Sum>k<n. f k)"
  by (simp add: interv_sum_list_conv_sum_set_nat atLeast0LessThan)

lemma prior_mean_positive:
  assumes "\<forall>p\<in>set estimated. 0 < pvalue p"
  shows "prior_mean estimated = map (\<lambda>p. Num (log 10 (pvalue p))) estimated"
  using assms by (simp add: prior_mean_def flog10_def)

text \<open>
  Claim C2. For every position with one entry per estimated parameter, the prior mean is
  \<open>log\<^sub>1\<^sub>0\<close> of the nominal value of each estimated parameter and \<open>prior\<close> returns the
  sum of \<open>(position - prior_mean)\<^sup>2 / (2 * prior_var)\<close> with \<open>prior_var = 6\<close>: a Gaussian
  penalty of variance 6 in \<open>log\<^sub>1\<^sub>0\<close> space. A parameter that is within 6 orders of
  magnitude of its nominal value adds at most 3 to it.
\<close>

theorem prior_gaussian:
  assumes len: "length position = length estimated"
    and pos: "\<forall>p\<in>set estimated. 0 < pvalue p"
  shows "prior_var = 6 \<and>
     prior_mean estimated = map (\<lambda>p. Num (log 10 (pvalue p))) estimated \<and>
     prior (prior_mean estimated) m position =
       Inr (Num (\<Sum>k<length estimated.
                  (position ! k - log 10 (pvalue (estimated ! k)))\<^sup>2 / (2 * 6))) \<and>
     ((\<forall>k<length estimated. \<bar>position ! k - log 10 (pvalue (estimated ! k))\<bar> \<le> 6) \<longrightarrow>
      (\<Sum>k<length estimated.
          (position ! k - log 10 (pvalue (estimated ! k)))\<^sup>2 / (2 * 6)) \<le> 3 * real (length estimated))"
proof -
  let ?n = "length estimated"
  let ?mu = "\<lambda>k. log 10 (pvalue (estimated ! k))"
  let ?pen = "\<lambda>k. (position ! k - ?mu k)\<^sup>2 / (2 * 6)"
  note pm = prior_mean_positive [OF pos]
  have d: "broadcast1 fsub (map Num position) (prior_mean estimated) =
      Inr (map (\<lambda>k. fsub (map Num position ! k) (prior_mean estimated ! k)) [0..<?n])"
    using broadcast1_same [of "map Num position" "prior_mean estimated" fsub] len
    by (simp add: prior_mean_def)
  have pens: "map (\<lambda>x. fdiv (fsquare x) (Num (2 * prior_var)))
      (map (\<lambda>k. fsub (map Num position ! k) (prior_mean estimated ! k)) [0..<?n]) =
      map Num (map ?pen [0..<?n])"
    using len by (simp add: pm prior_var_def)
  have val: "prior (prior_mean estimated) m position = Inr (Num (\<Sum>k<?n. ?pen k))"
    by (simp only: prior_def d on_value_Inr pens fsum_Num sum_list_upt)
  have bound: "(\<Sum>k<?n. ?pen k) \<le> 3 * real ?n"
    if "\<forall>k<?n. \<bar>position ! k - ?mu k\<bar> \<le> 6"
  proof -
    have "?pen k \<le> 3" if "k < ?n" for k
    proof -
      from that \<open>\<forall>k<?n. \<bar>position ! k - ?mu k\<bar> \<le> 6\<close> have "\<bar>position ! k - ?mu k\<bar> \<le> 6" by simp
      then have "(position ! k - ?mu k)\<^sup>2 \<le> 6\<^sup>2"
        by (metis abs_le_square_iff abs_numeral)
      then show ?thesis by simp
    qed
    then have "(\<Sum>k<?n. ?pen k) \<le> (\<Sum>k<?n. 3)" by (intro sum_mono) simp
    then show ?thesis by simp
  qed
  from val bound pm show ?thesis by (simp add: prior_var_def)
qed

theorem prior_gaussian_witness:
  "length [2::real] = length [Parameter ''kcp11'' KC] \<and>
   0 < pvalue (Parameter ''kcp11'' KC) \<and>
   prior (prior_mean [Parameter ''kcp11'' KC]) m0 [2] = Inr (Num (1 / 3))"
proof -
  have len: "length [2::real] = length [Parameter ''kcp11'' KC]" by simp
  have pos: "\<forall>p\<in>set [Parameter ''kcp11'' KC]. 0 < pvalue p"
    by (simp add: Parameter_def KC_def)
  from prior_gaussian [OF len pos, of m0]
  have "prior (prior_mean [Parameter ''kcp11'' KC]) m0 [2] =
      Inr (Num (\<Sum>k<length [Parameter ''kcp11'' KC].
                  ([2] ! k - log 10 (pvalue ([Parameter ''kcp11'' KC] ! k)))\<^sup>2 / (2 * 6)))"
    by blast
  also have "\<dots> = Inr (Num (1 / 3))" by (simp add: Parameter_def KC_def)
  finally show ?thesis using len pos by simp
qed

subsection \<open>step\<close>

text \<open>
  Claim C5. \<open>step\<close> prints a line of statistics if and only if the iteration number is
  divisible by 20, and the acceptance rate of that line is the number of accepted moves
  divided by the iteration number plus one, a divisor that is not zero when a line is
  printed.
\<close>

theorem step_prints:
  "step m out =
     Inr (if 20 dvd iter m
          then out @ [\<lparr>line_iter = iter m, line_sigma = sig_value m, line_T = T m,
                        line_acc = real_of_int (acceptance m) / real_of_int (iter m + 1),
                        line_lkl = accept_likelihood m, line_prior = accept_prior m,
                        line_post = accept_posterior m\<rparr>]
          else out) \<and>
   (20 dvd iter m \<longrightarrow> real_of_int (iter m + 1) \<noteq> 0)"
proof (cases "20 dvd iter m")
  case True
  then have "iter m \<noteq> - 1" by auto
  then have nz: "real_of_int (iter m + 1) \<noteq> 0" by linarith
  with True show ?thesis by (simp add: step_def py_truediv_def mod_eq_0_iff_dvd)
next
  case False
  then show ?thesis by (simp add: step_def mod_eq_0_iff_dvd)
qed

theorem step_prints_witness:
  "20 dvd iter m0 \<and>
   step m0 [] = Inr [\<lparr>line_iter = 40, line_sigma = 1, line_T = 1, line_acc = 10 / 41,
                       line_lkl = 2, line_prior = 3, line_post = 5\<rparr>] \<and>
   \<not> 20 dvd iter (m0\<lparr>iter := 41\<rparr>) \<and> step (m0\<lparr>iter := 41\<rparr>) [] = Inr []"
  using step_prints [of m0 "[]"] step_prints [of "m0\<lparr>iter := 41\<rparr>" "[]"]
  by (simp add: m0_def)

subsection \<open>The options of the run\<close>

lemma choose_scenario_1:
  "choose_scenario 1 mdl opts = Inr (opts\<lparr>estimate_params := parameters_rules mdl\<rparr>)"
  by (simp add: choose_scenario_def)

lemma configure_Inr:
  "configure mdl ydata_norm exp_var opts0 =
     Inr (opts0\<lparr>opts_model := mdl, opts_tspan := tspan, integrator := ''vode'',
               nsteps := 50000, estimate_params := parameters_rules mdl,
               likelihood_fn := likelihood ydata_norm exp_var,
               prior_fn := prior (prior_mean (parameters_rules mdl)),
               step_fn := step, seed := 1, atol := 1 / 10 ^ 6, rtol := 1 / 10 ^ 3,
               intsteps := 5000, with_jacobian := True\<rparr>)"
  by (simp add: configure_def scenario_def choose_scenario_1)





lemma set_parameters_rules:
  "set (parameters_rules mdl) = set (parameters mdl) \<inter> set (concat (map rule_rates (rules mdl)))"
  by (auto simp: parameters_rules_def)

lemma set_parameters_initial_conditions:
  "set (parameters_initial_conditions mdl) =
     set (parameters mdl) \<inter> set (map snd (initial_conditions mdl))"
  by (auto simp: parameters_initial_conditions_def)

lemma receptor_rates_separate:
  "set (map snd (initial_conditions receptor_model)) \<inter>
   set (concat (map rule_rates (rules receptor_model))) = {}"
  by (simp add: receptor_model_def rec_initial_def rec_events_def ligand_binding_def
      dimerization_def ATP_binding_def cross_phospho_rules_def dephospho_rules_def
      dephospho_def cross_phospho_def rec_intern_def rec_degrade_def degrade_def
      bind_table_def bind_def rule_rates_def Parameter_def)

lemma receptor_model_rates_only:
  "set (parameters_rules receptor_model) \<inter>
   set (parameters_initial_conditions receptor_model) = {}"
  using receptor_rates_separate
  unfolding set_parameters_rules set_parameters_initial_conditions by blast



subsection \<open>After the run\<close>

lemma take_indices_Inr:
  "list_all (\<lambda>i. i < length a) idx \<Longrightarrow> take_indices a idx = Inr (map (\<lambda>i. a ! i) idx)"
  by (simp add: take_indices_def)

lemma normalize_extracted:
  assumes "set obs_names \<subseteq> set (field_names y)" "records y \<noteq> []"
  shows "\<exists>A N. extract_records y obs_names = Inr A \<and> normalize (amap Num A) = Inr N"
proof -
  have ne: "obs_names \<noteq> []" by (simp add: obs_names_def)
  from extract_records_Inr [OF ne assms(1)] obtain A where
    A: "extract_records y obs_names = Inr A" "shape A = (length (records y), length obs_names)"
      "wf_array2 A"
    by blast
  from A(2) assms(2) have "rows A \<noteq> []" by (auto simp: shape_def nrows_def)
  from normalize_Inr [OF A(3) this] A(1) show ?thesis by blast
qed

text \<open>
  Claim C6. Once the run has returned, and when the calls that compute the plots return
  (the solvers give simulations with the three observables and at least one time point,
  the indices of the estimated parameters are in range), the script saves two files: the
  posterior samples \<open>mcmc.get_mixed_accepts(burn)\<close> with \<open>burn = nsteps / 10 = 5000\<close> under
  \<^verbatim>\<open>calibration_allpositions_A431_highEGF.npy\<close>, and the pairs of each estimated
  parameter with its fitted value \<open>mcmc.cur_params()[mcmc.estimate_idx]\<close> under
  \<^verbatim>\<open>calibration_fittedparams_A431_highEGF.npy\<close>; no other file changes.
\<close>

theorem after_run_saves:
  assumes conf: "configure mdl ydata_norm exp_var opts0 = Inr opts"
    and idx: "list_all (\<lambda>i. i < length (cur_params m)) (estimate_idx m)"
    and ode: "odesolve mdl tspan = Inr yinitial"
    and obs1: "set obs_names \<subseteq> set (field_names yinitial)" and recs1: "records yinitial \<noteq> []"
    and sim: "simulate_fn m None True = Inr yfinal"
    and obs2: "set obs_names \<subseteq> set (field_names yfinal)" and recs2: "records yfinal \<noteq> []"
  shows "after_run opts m odesolve files =
     Inr (files(''calibration_allpositions_A431_highEGF.npy'' \<mapsto>
                  Positions (get_mixed_accepts m 5000),
                ''calibration_fittedparams_A431_highEGF.npy'' \<mapsto>
                  FittedParams (zip (parameters_rules mdl)
                                    (map (\<lambda>i. cur_params m ! i) (estimate_idx m)))))"
proof -
  from conf have o: "opts_model opts = mdl" "nsteps opts = 50000"
    "estimate_params opts = parameters_rules mdl"
    by (auto simp: configure_Inr)
  from normalize_extracted [OF obs1 recs1] obtain A1 N1 where
    y1: "extract_records yinitial obs_names = Inr A1" "normalize (amap Num A1) = Inr N1"
    by blast
  from normalize_extracted [OF obs2 recs2] obtain A2 N2 where
    y2: "extract_records yfinal obs_names = Inr A2" "normalize (amap Num A2) = Inr N2"
    by blast
  show ?thesis
    by (simp add: after_run_def take_indices_Inr [OF idx] o ode simulate_def sim y1 y2)
qed

theorem after_run_saves_witness:
  "\<exists>opts files'. configure receptor_model Y0 V0 opts_default = Inr opts \<and>
     list_all (\<lambda>i. i < length (cur_params m2)) (estimate_idx m2) \<and>
     odesolve0 receptor_model tspan = Inr ysim0 \<and>
     set obs_names \<subseteq> set (field_names ysim0) \<and> records ysim0 \<noteq> [] \<and>
     simulate_fn m2 None True = Inr ysim0 \<and>
     after_run opts m2 odesolve0 Map.empty = Inr files' \<and>
     files' ''calibration_allpositions_A431_highEGF.npy'' = Some (Positions [[1, 2]]) \<and>
     files' ''calibration_fittedparams_A431_highEGF.npy'' =
       Some (FittedParams (zip (parameters_rules receptor_model) [30, 10]))"
proof -
  obtain opts where conf: "configure receptor_model Y0 V0 opts_default = Inr opts"
    by (simp add: configure_Inr)
  have idx: "list_all (\<lambda>i. i < length (cur_params m2)) (estimate_idx m2)"
    by (simp add: m2_def)
  have ode: "odesolve0 receptor_model tspan = Inr ysim0" by (simp add: odesolve0_def)
  have obs: "set obs_names \<subseteq> set (field_names ysim0)" by (simp add: obs_names_def ysim0_def)
  have recs: "records ysim0 \<noteq> []" by (simp add: ysim0_def)
  have sim: "simulate_fn m2 None True = Inr ysim0" by (simp add: m2_def m1_def)
  note saved = after_run_saves [where odesolve = odesolve0 and files = Map.empty,
      OF conf idx ode obs recs sim obs recs]
  let ?saved = "Map.empty(''calibration_allpositions_A431_highEGF.npy'' \<mapsto> Positions [[1, 2]],
                     ''calibration_fittedparams_A431_highEGF.npy'' \<mapsto>
                       FittedParams (zip (parameters_rules receptor_model) [30, 10]))"
  have run: "after_run opts m2 odesolve0 Map.empty = Inr ?saved"
    unfolding saved by (simp add: m2_def m1_def)
  have f1: "?saved ''calibration_allpositions_A431_highEGF.npy'' = Some (Positions [[1, 2]])"
    by simp
  have f2: "?saved ''calibration_fittedparams_A431_highEGF.npy'' =
      Some (FittedParams (zip (parameters_rules receptor_model) [30, 10]))"
    by simp
  from conf idx ode obs recs sim run f1 f2 show ?thesis by blast
qed

subsection \<open>The receptor layer\<close>

lemma cross_phospho_names:
  "map rule_name cross_phospho_rules =
     [Name ''cross_phospho_1_1'', Name ''cross_phospho_1_2'', Name ''cross_phospho_1_3'',
      Name ''cross_phospho_1_4'', Name ''cross_phospho_2_1'', Name ''cross_phospho_2_2'',
      Name ''cross_phospho_2_3'', Name ''cross_phospho_2_4'', Name ''cross_phospho_4_1'',
      Name ''cross_phospho_4_2'', Name ''cross_phospho_4_3'', Name ''cross_phospho_4_4'']"
  by code_simp

lemma cross_phospho_rates:
  "map (\<lambda>r. (pname (rate_forward r), pvalue (rate_forward r), rate_reverse r, is_reversible r))
     cross_phospho_rules =
     [(Name ''kcp11'', 1, None, False), (Name ''kcp12'', 1, None, False),
      (Name ''kcp13'', 1, None, False), (Name ''kcp14'', 1, None, False),
      (Name ''kcp21'', 1, None, False), (Name ''kcp22'', 1, None, False),
      (Name ''kcp23'', 1, None, False), (Name ''kcp24'', 1, None, False),
      (Name ''kcp41'', 1, None, False), (Name ''kcp42'', 1, None, False),
      (Name ''kcp43'', 1, None, False), (Name ''kcp44'', 1, None, False)]"
  by (simp add: cross_phospho_rules_def cross_phospho_def Parameter_def KC_def)

lemma cross_phospho_pairs_list:
  "map (\<lambda>r. (kinases r, substrates r)) cross_phospho_rules =
     [([Some ''1''], [Some ''1'']), ([Some ''1''], [Some ''2'']), ([Some ''1''], [Some ''3'']),
      ([Some ''1''], [Some ''4'']), ([Some ''2''], [Some ''1'']), ([Some ''2''], [Some ''2'']),
      ([Some ''2''], [Some ''3'']), ([Some ''2''], [Some ''4'']), ([Some ''4''], [Some ''1'']),
      ([Some ''4''], [Some ''2'']), ([Some ''4''], [Some ''3'']), ([Some ''4''], [Some ''4''])]"
  by code_simp

lemma cross_phospho_monomers:
  "map (\<lambda>r. (map (map monomer) (reactant_pattern r), map (map monomer) (product_pattern r),
             map (\<lambda>p. (site p ''bd'', state_of p ''st'')) (erbb_patterns (reactant_pattern r)),
             map (\<lambda>p. (site p ''bd'', state_of p ''st'')) (erbb_patterns (product_pattern r))))
     cross_phospho_rules =
   replicate 12 ([[''ATP'', ''erbb'', ''erbb'']], [[''ADP''], [''erbb'', ''erbb'']],
                 [(Some (Bond 2), None), (Some (Bond 2), Some ''U'')],
                 [(Some (Bond 2), None), (Some (Bond 2), Some ''P'')])"
  by code_simp

lemma phosphorylating_rules:
  "filter (\<lambda>r. substrates r \<noteq> []) rec_events = cross_phospho_rules"
  by code_simp

lemma ATP_carriers:
  "remdups (concat (map (\<lambda>r. concat (map carries_ATP (reactant_pattern r @ product_pattern r)))
     rec_events)) = [Some ''1'', Some ''2'', Some ''4'']"
  by code_simp

text \<open>
  Claim C7. The module declares 12 cross-phosphorylation rules, one for every ordered
  pair \<open>(i, j)\<close> with \<open>i\<close> among 1, 2, 4 and \<open>j\<close> among 1, 2, 3, 4, named
  \<open>cross_phospho_i_j\<close>. Each is irreversible with the rate parameter \<open>kcpij\<close> of value
  \<open>KC = 1\<close>; its left side is one complex of ATP, the receptor of type \<open>i\<close> that ATP is
  bound to, and its dimer partner of type \<open>j\<close> in state \<open>U\<close>; its right side is ADP and
  the dimer with the partner in state \<open>P\<close>. These are the only rules of the receptor
  layer that take a receptor from \<open>U\<close> to \<open>P\<close>, and in no rule of the layer is a receptor
  of another type than 1, 2 or 4 bound to ATP.
\<close>

theorem cross_phospho_pairs:
  "KC = 1 \<and> length cross_phospho_rules = 12 \<and>
   map rule_name cross_phospho_rules =
     [Name ''cross_phospho_1_1'', Name ''cross_phospho_1_2'', Name ''cross_phospho_1_3'',
      Name ''cross_phospho_1_4'', Name ''cross_phospho_2_1'', Name ''cross_phospho_2_2'',
      Name ''cross_phospho_2_3'', Name ''cross_phospho_2_4'', Name ''cross_phospho_4_1'',
      Name ''cross_phospho_4_2'', Name ''cross_phospho_4_3'', Name ''cross_phospho_4_4''] \<and>
   distinct (map rule_name cross_phospho_rules) \<and>
   map (\<lambda>r. (kinases r, substrates r)) cross_phospho_rules =
     [([Some ''1''], [Some ''1'']), ([Some ''1''], [Some ''2'']), ([Some ''1''], [Some ''3'']),
      ([Some ''1''], [Some ''4'']), ([Some ''2''], [Some ''1'']), ([Some ''2''], [Some ''2'']),
      ([Some ''2''], [Some ''3'']), ([Some ''2''], [Some ''4'']), ([Some ''4''], [Some ''1'']),
      ([Some ''4''], [Some ''2'']), ([Some ''4''], [Some ''3'']), ([Some ''4''], [Some ''4''])] \<and>
   map (\<lambda>r. (map (map monomer) (reactant_pattern r), map (map monomer) (product_pattern r),
             map (\<lambda>p. (site p ''bd'', state_of p ''st'')) (erbb_patterns (reactant_pattern r)),
             map (\<lambda>p. (site p ''bd'', state_of p ''st'')) (erbb_patterns (product_pattern r))))
     cross_phospho_rules =
     replicate 12 ([[''ATP'', ''erbb'', ''erbb'']], [[''ADP''], [''erbb'', ''erbb'']],
                   [(Some (Bond 2), None), (Some (Bond 2), Some ''U'')],
                   [(Some (Bond 2), None), (Some (Bond 2), Some ''P'')]) \<and>
   map (\<lambda>r. (pname (rate_forward r), pvalue (rate_forward r), rate_reverse r, is_reversible r))
     cross_phospho_rules =
     [(Name ''kcp11'', 1, None, False), (Name ''kcp12'', 1, None, False),
      (Name ''kcp13'', 1, None, False), (Name ''kcp14'', 1, None, False),
      (Name ''kcp21'', 1, None, False), (Name ''kcp22'', 1, None, False),
      (Name ''kcp23'', 1, None, False), (Name ''kcp24'', 1, None, False),
      (Name ''kcp41'', 1, None, False), (Name ''kcp42'', 1, None, False),
      (Name ''kcp43'', 1, None, False), (Name ''kcp44'', 1, None, False)] \<and>
   filter (\<lambda>r. substrates r \<noteq> []) rec_events = cross_phospho_rules \<and>
   remdups (concat (map (\<lambda>r. concat (map carries_ATP (reactant_pattern r @ product_pattern r)))
     rec_events)) = [Some ''1'', Some ''2'', Some ''4'']"
proof -
  have "KC = 1" by (simp add: KC_def)
  moreover have "length cross_phospho_rules = 12"
    using cross_phospho_names [THEN arg_cong [of _ _ length]] by simp
  moreover have "distinct (map rule_name cross_phospho_rules)"
    unfolding cross_phospho_names by simp
  ultimately show ?thesis
    using cross_phospho_names cross_phospho_pairs_list cross_phospho_monomers
      cross_phospho_rates phosphorylating_rules ATP_carriers
    by (intro conjI)
qed
















end
